theory Spec2Isabelle
  imports Main
begin

section \<open>Python values\<close>

text \<open>
  Every value that crosses the boundary of the remote service is a parsed JSON document.
  Python's \<^verbatim>\<open>None\<close> and JSON's \<^verbatim>\<open>null\<close> are the same value after parsing, so
  \<open>JNull\<close> stands for both. A dict is an association list with distinct keys, in insertion
  order. Numbers are integers: only their truthiness is ever inspected.
\<close>

datatype json =
    JNull
  | JBool bool
  | JNum int
  | JStr string
  | JArr "json list"
  | JObj "(string \<times> json) list"

text \<open>Python truthiness, as \<^verbatim>\<open>if x\<close>, \<^verbatim>\<open>not x\<close> and \<^verbatim>\<open>x or y\<close> use it.\<close>

fun truthy :: "json \<Rightarrow> bool" where
  "truthy JNull = False"
| "truthy (JBool b) = b"
| "truthy (JNum n) = (n \<noteq> 0)"
| "truthy (JStr s) = (s \<noteq> [])"
| "truthy (JArr xs) = (xs \<noteq> [])"
| "truthy (JObj kvs) = (kvs \<noteq> [])"

text \<open>\<^verbatim>\<open>a or b\<close> returns \<open>a\<close> when it is truthy and \<open>b\<close> otherwise.\<close>

definition py_or :: "json \<Rightarrow> json \<Rightarrow> json" where
  "py_or a b = (if truthy a then a else b)"

text \<open>
  \<^verbatim>\<open>if user_id\<close> on an optional string: \<^verbatim>\<open>None\<close> and the empty string are falsy.
\<close>

fun truthy_str :: "string option \<Rightarrow> bool" where
  "truthy_str None = False"
| "truthy_str (Some s) = (s \<noteq> [])"

text \<open>An optional string inside an f-string: \<^verbatim>\<open>None\<close> prints as the word None.\<close>

fun fmt_opt :: "string option \<Rightarrow> string" where
  "fmt_opt None = ''None''"
| "fmt_opt (Some s) = s"

text \<open>Decimal rendering of a count inside an f-string.\<close>

definition digit_char :: "nat \<Rightarrow> char" where
  "digit_char d = char_of (48 + d)"

fun str_nat :: "nat \<Rightarrow> string" where
  "str_nat n = (if n < 10 then [digit_char n] else str_nat (n div 10) @ [digit_char (n mod 10)])"

declare str_nat.simps [simp del]

text \<open>\<^verbatim>\<open>str.upper()\<close> on the ASCII letters, which is all an HTTP verb holds.\<close>

definition upper_char :: "char \<Rightarrow> char" where
  "upper_char c =
     (let n = (of_char c :: nat) in if 97 \<le> n \<and> n \<le> 122 then char_of (n - 32) else c)"

definition upper :: "string \<Rightarrow> string" where
  "upper s = map upper_char s"

section \<open>The HTTP layer\<close>

text \<open>
  A response of the \<^verbatim>\<open>requests\<close> library: its status code, its body as text, what
  \<^verbatim>\<open>response.json()\<close> gives (\<open>Inl msg\<close> when the body is not JSON and the call raises
  with text \<open>msg\<close>), and the text of the \<^verbatim>\<open>HTTPError\<close> that
  \<^verbatim>\<open>raise_for_status\<close> builds for it.
\<close>

record http_response =
  status_code :: nat
  text_body :: string
  json_body :: "string + json"
  status_error_text :: string

text \<open>
  The exceptions the code can meet, each with the text \<^verbatim>\<open>str()\<close> gives for it. All of
  them derive from \<^verbatim>\<open>Exception\<close>. \<open>JSONDecodeError\<close> is the one of
  \<^verbatim>\<open>requests\<close>, which is both a \<^verbatim>\<open>RequestException\<close> and a
  \<^verbatim>\<open>ValueError\<close>; \<open>RequestException\<close> stands for every other one that is not an
  \<^verbatim>\<open>HTTPError\<close> (timeouts, connection errors). \<open>StreamlitDuplicateElementKey k\<close> is
  what Streamlit raises when a script run creates a second widget with the key \<open>k\<close>.
\<close>

datatype py_exception =
    HTTPError string http_response
  | JSONDecodeError string
  | RequestException string
  | AttributeError string
  | TypeError string
  | StreamlitDuplicateElementKey string
  | OtherException string

fun exn_str :: "py_exception \<Rightarrow> string" where
  "exn_str (HTTPError m r) = m"
| "exn_str (JSONDecodeError m) = m"
| "exn_str (RequestException m) = m"
| "exn_str (AttributeError m) = m"
| "exn_str (TypeError m) = m"
| "exn_str (StreamlitDuplicateElementKey k) = k"
| "exn_str (OtherException m) = m"

text \<open>
  \<^verbatim>\<open>d.get(key)\<close>: the value or \<^verbatim>\<open>None\<close> on a dict; any other value has no
  \<^verbatim>\<open>get\<close> attribute.
\<close>

fun type_name :: "json \<Rightarrow> string" where
  "type_name JNull = ''NoneType''"
| "type_name (JBool b) = ''bool''"
| "type_name (JNum n) = ''int''"
| "type_name (JStr s) = ''str''"
| "type_name (JArr xs) = ''list''"
| "type_name (JObj kvs) = ''dict''"

definition single_quoted :: "string \<Rightarrow> string" where
  "single_quoted s = [CHR 0x27] @ s @ [CHR 0x27]"

fun dict_get :: "json \<Rightarrow> string \<Rightarrow> py_exception + json" where
  "dict_get (JObj kvs) k = Inr (case map_of kvs k of None \<Rightarrow> JNull | Some v \<Rightarrow> v)"
| "dict_get j k =
     Inl (AttributeError (single_quoted (type_name j) @ '' object has no attribute ''
                            @ single_quoted ''get''))"

text \<open>One outbound call: which function of \<^verbatim>\<open>requests\<close> is called, and with what.\<close>

record request =
  verb :: string
  url :: string
  headers :: "(string \<times> string) list"
  req_params :: "json option"
  req_json :: "json option"
  timeout :: nat

text \<open>
  A row of the Supabase table, and the three columns of it that the training query selects.
\<close>

record db_row =
  row_id :: int
  slack_user_id :: string
  message_content :: "string option"
  slack_message_ts :: "string option"
  processed_for_sensay :: bool
  created_at :: int

record msg_data =
  msg_content :: "string option"
  msg_ts :: "string option"
  msg_id :: int

text \<open>
  One line of \<^verbatim>\<open>training_logs\<close>: a constructor for each f-string of the loop, holding the
  values the f-string interpolates.
  \<^item> \<open>Create_failed ts e\<close>: "Failed to create Sensay KB entry for msg_ts ts: e"
  \<^item> \<open>Missing_kb_id ts\<close>: "Missing knowledgeBaseID for msg_ts ts after KB entry creation."
  \<^item> \<open>Fill_failed kb ts e\<close>: "Failed to add text to Sensay KB entry kb (msg_ts ts): e"
  \<^item> \<open>Trained i kb\<close>: "Trained with Supabase Msg ID i (KB ID: kb)"
  \<^item> \<open>Mark_failed ts e\<close>: "Trained Sensay with msg_ts ts, but FAILED to update Supabase: e"
\<close>

datatype log_line =
    Create_failed "string option" json
  | Missing_kb_id "string option"
  | Fill_failed json "string option" json
  | Trained int json
  | Mark_failed "string option" string

text \<open>
  What the operator sees, and every other effect, in the order it happens.
  \<^item> \<open>Net rq\<close>: a call of \<^verbatim>\<open>requests\<close>;
  \<^item> \<open>Store_select t owner\<close>: the row query on table \<open>t\<close> for \<open>owner\<close>;
  \<^item> \<open>Store_update t i\<close>: the update of the row with id \<open>i\<close> in table \<open>t\<close>;
  \<^item> \<open>Sleep_ms n\<close>: \<^verbatim>\<open>time.sleep\<close> for \<open>n\<close> milliseconds;
  \<^item> \<open>St_error\<close>, \<open>St_info\<close>, \<open>St_success\<close>: a message of that kind;
  \<^item> \<open>Progress_bar k n text\<close>: the progress bar set to \<open>k / n\<close> with a text;
  \<^item> \<open>Progress_empty\<close>, \<open>Log_area_empty\<close>: the bar or the log area cleared;
  \<^item> \<open>Log_area label lines\<close>: the log area showing these lines under a label.
  A text area is a widget with a key, and creating it can raise (see \<open>text_area\<close> below);
  the other calls into Streamlit are taken not to raise.
\<close>

datatype event =
    Net request
  | Store_select string string
  | Store_update string int
  | Sleep_ms nat
  | St_error string
  | St_info string
  | St_success string
  | Progress_bar nat nat string
  | Progress_empty
  | Log_area_empty
  | Log_area string "log_line list"

text \<open>
  The world outside the program. \<open>services\<close> is how it answers and never changes during a
  run: the remote service's answer to the \<open>k\<close>-th outbound call, whether the row query and
  the \<open>k\<close>-th update raise, and Python's \<^verbatim>\<open>str()\<close> on a JSON value. \<open>world\<close> is what
  a run changes: the table, the trace of effects, and the keys of the widgets that the present
  script run has created.
\<close>

record services =
  remote :: "nat \<Rightarrow> request \<Rightarrow> py_exception + http_response"
  select_raises :: "py_exception option"
  update_raises :: "nat \<Rightarrow> int \<Rightarrow> py_exception option"
  py_str :: "json \<Rightarrow> string"

record world =
  table :: "db_row list"
  trace :: "event list"
  widget_keys :: "string list"

definition emit :: "event \<Rightarrow> world \<Rightarrow> world" where
  "emit e w = w\<lparr>trace := trace w @ [e]\<rparr>"

fun is_Net :: "event \<Rightarrow> bool" where
  "is_Net (Net rq) = True"
| "is_Net e = False"

fun is_Store_update :: "event \<Rightarrow> bool" where
  "is_Store_update (Store_update t i) = True"
| "is_Store_update e = False"

definition net_count :: "world \<Rightarrow> nat" where
  "net_count w = length (filter is_Net (trace w))"

definition update_count :: "world \<Rightarrow> nat" where
  "update_count w = length (filter is_Store_update (trace w))"

section \<open>make_sensay_request\<close>

definition SENSAY_API_BASE_URL :: string where
  "SENSAY_API_BASE_URL = ''https://api.sensay.io/v1''"

text \<open>\<^verbatim>\<open>requests.get\<close>, \<^verbatim>\<open>post\<close>, \<^verbatim>\<open>put\<close>, \<^verbatim>\<open>delete\<close>: the call is recorded
  and the remote service answers or the call raises.\<close>

definition send :: "services \<Rightarrow> request \<Rightarrow> world \<Rightarrow> (py_exception + http_response) \<times> world" where
  "send sv rq w = (remote sv (net_count w) rq, emit (Net rq) w)"

text \<open>\<^verbatim>\<open>response.raise_for_status()\<close>: raises for the 4XX and 5XX codes only.\<close>

definition raise_for_status :: "http_response \<Rightarrow> py_exception + unit" where
  "raise_for_status r =
     (if 400 \<le> status_code r \<and> status_code r < 600
      then Inl (HTTPError (status_error_text r) r) else Inr ())"

definition response_json :: "http_response \<Rightarrow> py_exception + json" where
  "response_json r = (case json_body r of Inl m \<Rightarrow> Inl (JSONDecodeError m) | Inr j \<Rightarrow> Inr j)"

text \<open>The two statements after the verb dispatch, lines 41 and 42.\<close>

definition check_and_parse :: "(py_exception + http_response) \<Rightarrow> py_exception + (json \<times> json)" where
  "check_and_parse sent =
     (case sent of
        Inl e \<Rightarrow> Inl e
      | Inr response \<Rightarrow>
          (case raise_for_status response of
             Inl e \<Rightarrow> Inl e
           | Inr u \<Rightarrow>
               (case response_json response of
                  Inl e \<Rightarrow> Inl e
                | Inr j \<Rightarrow> Inr (j, JNull))))"

text \<open>The body of the \<^verbatim>\<open>try\<close> block, lines 30 to 42.\<close>

definition try_block ::
  "services \<Rightarrow> string \<Rightarrow> string \<Rightarrow> (string \<times> string) list \<Rightarrow> json \<Rightarrow> json \<Rightarrow> world
     \<Rightarrow> (py_exception + (json \<times> json)) \<times> world" where
  "try_block sv method u hs json_data params w =
     (if upper method = ''GET'' then
        (let (sent, w') = send sv \<lparr>verb = ''GET'', url = u, headers = hs,
                 req_params = Some params, req_json = None, timeout = 30\<rparr> w
         in (check_and_parse sent, w'))
      else if upper method = ''POST'' then
        (let (sent, w') = send sv \<lparr>verb = ''POST'', url = u, headers = hs,
                 req_params = None, req_json = Some json_data, timeout = 30\<rparr> w
         in (check_and_parse sent, w'))
      else if upper method = ''PUT'' then
        (let (sent, w') = send sv \<lparr>verb = ''PUT'', url = u, headers = hs,
                 req_params = None, req_json = Some json_data, timeout = 30\<rparr> w
         in (check_and_parse sent, w'))
      else if upper method = ''DELETE'' then
        (let (sent, w') = send sv \<lparr>verb = ''DELETE'', url = u, headers = hs,
                 req_params = None, req_json = None, timeout = 30\<rparr> w
         in (check_and_parse sent, w'))
      else (Inr (JNull, JObj [(''error'', JStr ''Unsupported HTTP method'')]), w))"

text \<open>The three \<^verbatim>\<open>except\<close> clauses, in the order the source lists them.\<close>

fun handle :: "py_exception \<Rightarrow> py_exception + (json \<times> json)" where
  "handle (HTTPError m response) =
     Inr (JNull, JObj [(''error'', JStr (''HTTP error occurred: '' @ m)),
                       (''status_code'', JNum (int (status_code response))),
                       (''details'', (case response_json response of
                                        Inr j \<Rightarrow> j
                                      | Inl (JSONDecodeError x) \<Rightarrow> JStr (text_body response)
                                      | Inl e \<Rightarrow> JNull))])"
| "handle (JSONDecodeError m) =
     Inr (JNull, JObj [(''error'', JStr (''Request error occurred: '' @ m))])"
| "handle (RequestException m) =
     Inr (JNull, JObj [(''error'', JStr (''Request error occurred: '' @ m))])"
| "handle e =
     Inr (JNull, JObj [(''error'', JStr (''An unexpected error occurred: '' @ exn_str e))])"

definition make_sensay_request ::
  "services \<Rightarrow> string \<Rightarrow> string \<Rightarrow> string \<Rightarrow> string \<Rightarrow> json \<Rightarrow> json \<Rightarrow> string option \<Rightarrow> world
     \<Rightarrow> (py_exception + (json \<times> json)) \<times> world" where
  "make_sensay_request sv method endpoint sensay_org_secret sensay_api_version json_data params
       user_id w =
     (let hs = [(''X-ORGANIZATION-SECRET'', sensay_org_secret),
                (''X-API-Version'', sensay_api_version),
                (''Content-Type'', ''application/json'')]
               @ (if truthy_str user_id then [(''X-USER-ID'', fmt_opt user_id)] else []);
          u = SENSAY_API_BASE_URL @ endpoint;
          (r, w') = try_block sv method u hs json_data params w
      in (case r of Inr res \<Rightarrow> (Inr res, w') | Inl e \<Rightarrow> (handle e, w')))"

section \<open>The row store\<close>

text \<open>
  The query of lines 258 to 263: the rows of the owner that are not processed, oldest first,
  reduced to the three selected columns. The call is recorded whether it raises or not.
\<close>

definition project :: "db_row \<Rightarrow> msg_data" where
  "project r = \<lparr>msg_content = message_content r, msg_ts = slack_message_ts r, msg_id = row_id r\<rparr>"

definition fetch_unprocessed ::
  "services \<Rightarrow> string \<Rightarrow> string \<Rightarrow> world \<Rightarrow> (py_exception + msg_data list) \<times> world" where
  "fetch_unprocessed sv table_name owner w =
     (case select_raises sv of
        Some e \<Rightarrow> (Inl e, emit (Store_select table_name owner) w)
      | None \<Rightarrow>
          (Inr (map project
                 (sort_key created_at
                    (filter (\<lambda>r. slack_user_id r = owner \<and> \<not> processed_for_sensay r) (table w)))),
           emit (Store_select table_name owner) w))"

text \<open>
  The update of lines 325 to 328: \<^verbatim>\<open>processed_for_sensay\<close> becomes true in the rows whose
  \<^verbatim>\<open>id\<close> is the given one. An update that raises changes no row.
\<close>

definition set_processed :: "int \<Rightarrow> db_row list \<Rightarrow> db_row list" where
  "set_processed i rows =
     map (\<lambda>r. if row_id r = i then r\<lparr>processed_for_sensay := True\<rparr> else r) rows"

definition mark_processed ::
  "services \<Rightarrow> string \<Rightarrow> int \<Rightarrow> world \<Rightarrow> py_exception option \<times> world" where
  "mark_processed sv table_name i w =
     (case update_raises sv (update_count w) i of
        Some e \<Rightarrow> (Some e, emit (Store_update table_name i) w)
      | None \<Rightarrow>
          (None, emit (Store_update table_name i) (w\<lparr>table := set_processed i (table w)\<rparr>)))"

section \<open>The training loop\<close>

record cfg =
  sensay_org_secret :: string
  sensay_api_version :: string
  supabase_table_name :: string

text \<open>The three fields the training tab reads from the selected replica.\<close>

record replica =
  replica_name :: "string option"
  replica_uuid :: "string option"
  replica_owner :: "string option"

text \<open>The variables of lines 281 to 283.\<close>

record run =
  processed_count :: nat
  error_count :: nat
  training_logs :: "log_line list"

text \<open>
  The test of lines 299 and 319,
  \<^verbatim>\<open>error or not data or not data.get("success")\<close>, with Python's short circuit: the
  \<^verbatim>\<open>get\<close> is reached only for a truthy \<open>data\<close> and raises when that is not a dict.
\<close>

definition call_failed :: "json \<Rightarrow> json \<Rightarrow> py_exception + bool" where
  "call_failed data err =
     (if truthy err then Inr True
      else if \<not> truthy data then Inr True
      else (case dict_get data ''success'' of
              Inl e \<Rightarrow> Inl e
            | Inr v \<Rightarrow> Inr (\<not> truthy v)))"

definition log_error :: "log_line \<Rightarrow> run \<Rightarrow> run" where
  "log_error l s = s\<lparr>training_logs := training_logs s @ [l], error_count := error_count s + 1\<rparr>"

definition log_processed :: "log_line \<Rightarrow> run \<Rightarrow> run" where
  "log_processed l s =
     s\<lparr>processed_count := processed_count s + 1, training_logs := training_logs s @ [l]\<rparr>"

text \<open>
  \<^verbatim>\<open>message_content[:30].replace(chr(10), ' ')\<close> and the progress text of line 290. A
  \<open>char\<close> of the content stands for one character of the Python string, so the cut is
  exact for ASCII contents; for other ones the text shown differs and nothing else.
\<close>

definition preview :: "string \<Rightarrow> string" where
  "preview content = map (\<lambda>ch. if ch = CHR 0x0A then CHR '' '' else ch) (take 30 content)"

definition progress_text :: "nat \<Rightarrow> nat \<Rightarrow> string \<Rightarrow> string" where
  "progress_text i total_messages content =
     ''Processing message '' @ str_nat (i + 1) @ ''/'' @ str_nat total_messages @ '': ''
       @ [CHR 0x27] @ preview content @ ''...'' @ [CHR 0x27]"

text \<open>\<^verbatim>\<open>training_logs[-10:]\<close>\<close>

definition last10 :: "'a list \<Rightarrow> 'a list" where
  "last10 xs = drop (length xs - 10) xs"

text \<open>
  \<^verbatim>\<open>training_log_area.text_area(label, value=..., key=key, ...)\<close>: Streamlit refuses a
  second widget with a key that the script run has used already and raises; otherwise the key
  is taken and the area shows the lines.
\<close>

definition text_area ::
  "string \<Rightarrow> string \<Rightarrow> log_line list \<Rightarrow> world \<Rightarrow> py_exception option \<times> world" where
  "text_area label key lines w =
     (if key \<in> set (widget_keys w) then (Some (StreamlitDuplicateElementKey key), w)
      else (None, emit (Log_area label lines) (w\<lparr>widget_keys := key # widget_keys w\<rparr>)))"

text \<open>
  The keys of lines 337 and 341. Neither depends on the row: every iteration that reaches line
  337 asks for the same key.
\<close>

definition live_log_key :: "replica \<Rightarrow> string" where
  "live_log_key rep = ''training_log_display_'' @ fmt_opt (replica_uuid rep)"

definition final_log_key :: "replica \<Rightarrow> string" where
  "final_log_key rep = ''final_training_log_'' @ fmt_opt (replica_uuid rep)"

text \<open>
  Lines 337 and 338, the end of an iteration that no \<^verbatim>\<open>continue\<close> left early: the live
  log shows the last ten lines, then the loop sleeps 0.2 seconds. When the text area raises,
  the exception leaves the iteration before the sleep.
\<close>

definition end_of_iteration ::
  "replica \<Rightarrow> run \<Rightarrow> world \<Rightarrow> (py_exception + run) \<times> world" where
  "end_of_iteration rep s w =
     (case text_area ''Training Log'' (live_log_key rep) (last10 (training_logs s)) w of
        (Some e, w') \<Rightarrow> (Inl e, w')
      | (None, w') \<Rightarrow> (Inr s, emit (Sleep_ms 200) w'))"

text \<open>Lines 323 to 335: the fill call succeeded, the row is marked in the store.\<close>

definition mark_step ::
  "services \<Rightarrow> cfg \<Rightarrow> msg_data \<Rightarrow> json \<Rightarrow> run \<Rightarrow> world \<Rightarrow> run \<times> world" where
  "mark_step sv c msg knowledge_base_id s w =
     (case mark_processed sv (supabase_table_name c) (msg_id msg) w of
        (None, w') \<Rightarrow> (log_processed (Trained (msg_id msg) knowledge_base_id) s, w')
      | (Some e_supa_update, w') \<Rightarrow>
          (log_error (Mark_failed (msg_ts msg) (exn_str e_supa_update)) s, w'))"

text \<open>Lines 312 to 338: the entry exists, its text is sent.\<close>

definition fill_step ::
  "services \<Rightarrow> cfg \<Rightarrow> replica \<Rightarrow> msg_data \<Rightarrow> string \<Rightarrow> json \<Rightarrow> run \<Rightarrow> world
     \<Rightarrow> (py_exception + run) \<times> world" where
  "fill_step sv c rep msg content knowledge_base_id s w =
     (case make_sensay_request sv ''PUT''
             (''/replicas/'' @ fmt_opt (replica_uuid rep) @ ''/training/''
                @ py_str sv knowledge_base_id)
             (sensay_org_secret c) (sensay_api_version c)
             (JObj [(''rawText'', JStr content)]) JNull None w of
        (Inl e, w') \<Rightarrow> (Inl e, w')
      | (Inr (update_kb_data, update_kb_error), w') \<Rightarrow>
          (case call_failed update_kb_data update_kb_error of
             Inl e \<Rightarrow> (Inl e, w')
           | Inr True \<Rightarrow>
               end_of_iteration rep
                 (log_error (Fill_failed knowledge_base_id (msg_ts msg)
                               (py_or update_kb_error update_kb_data)) s) w'
           | Inr False \<Rightarrow>
               (let (s', w'') = mark_step sv c msg knowledge_base_id s w'
                in end_of_iteration rep s' w'')))"

text \<open>
  One iteration, lines 286 to 338. Slicing a \<^verbatim>\<open>None\<close> content raises. The two
  \<^verbatim>\<open>continue\<close> statements of lines 303 and 310 leave the iteration before line 337.
\<close>

definition loop_body ::
  "services \<Rightarrow> cfg \<Rightarrow> replica \<Rightarrow> nat \<Rightarrow> nat \<Rightarrow> msg_data \<Rightarrow> run \<Rightarrow> world
     \<Rightarrow> (py_exception + run) \<times> world" where
  "loop_body sv c rep total_messages i msg s w =
     (case msg_content msg of
        None \<Rightarrow> (Inl (TypeError (single_quoted ''NoneType'' @ '' object is not subscriptable'')), w)
      | Some content \<Rightarrow>
          (case make_sensay_request sv ''POST''
                  (''/replicas/'' @ fmt_opt (replica_uuid rep) @ ''/training'')
                  (sensay_org_secret c) (sensay_api_version c) (JObj []) JNull None
                  (emit (Progress_bar (i + 1) total_messages (progress_text i total_messages content)) w) of
             (Inl e, w') \<Rightarrow> (Inl e, w')
           | (Inr (kb_entry_data, kb_entry_error), w') \<Rightarrow>
               (case call_failed kb_entry_data kb_entry_error of
                  Inl e \<Rightarrow> (Inl e, w')
                | Inr True \<Rightarrow>
                    (Inr (log_error (Create_failed (msg_ts msg)
                                       (py_or kb_entry_error kb_entry_data)) s), w')
                | Inr False \<Rightarrow>
                    (case dict_get kb_entry_data ''knowledgeBaseID'' of
                       Inl e \<Rightarrow> (Inl e, w')
                     | Inr knowledge_base_id \<Rightarrow>
                         if \<not> truthy knowledge_base_id
                         then (Inr (log_error (Missing_kb_id (msg_ts msg)) s), w')
                         else fill_step sv c rep msg content knowledge_base_id s w'))))"

text \<open>
  The \<^verbatim>\<open>for\<close> loop of line 285 over \<^verbatim>\<open>enumerate(messages_to_train)\<close>; an exception
  that leaves an iteration leaves the loop.
\<close>

fun train_loop ::
  "services \<Rightarrow> cfg \<Rightarrow> replica \<Rightarrow> nat \<Rightarrow> nat \<Rightarrow> msg_data list \<Rightarrow> run \<Rightarrow> world
     \<Rightarrow> (py_exception + run) \<times> world" where
  "train_loop sv c rep total_messages i [] s w = (Inr s, w)"
| "train_loop sv c rep total_messages i (msg # rest) s w =
     (case loop_body sv c rep total_messages i msg s w of
        (Inl e, w') \<Rightarrow> (Inl e, w')
      | (Inr s', w') \<Rightarrow> train_loop sv c rep total_messages (Suc i) rest s' w')"

section \<open>The training button\<close>

text \<open>
  How a press of the button ends: the owner guard refused to start, \<^verbatim>\<open>st.stop()\<close> ended
  the script, the loop ran to its end, or an exception left the handler.
\<close>

datatype outcome = Aborted | Stopped | Completed run | Raised py_exception

definition initial_run :: run where
  "initial_run = \<lparr>processed_count = 0, error_count = 0, training_logs = []\<rparr>"

text \<open>Line 342.\<close>

definition summary_text :: "replica \<Rightarrow> run \<Rightarrow> string" where
  "summary_text rep s =
     ''Training complete for '' @ [CHR 0x27] @ fmt_opt (replica_name rep) @ [CHR 0x27]
       @ ''. Successfully trained: '' @ str_nat (processed_count s)
       @ '', Errors: '' @ str_nat (error_count s) @ ''.''"

text \<open>Lines 340 to 344; the text area of line 341 is a widget with a key of its own.\<close>

definition report :: "replica \<Rightarrow> run \<Rightarrow> world \<Rightarrow> py_exception option \<times> world" where
  "report rep s w =
     (case text_area ''Full Training Log'' (final_log_key rep) (training_logs s)
             (emit Progress_empty w) of
        (Some e, w') \<Rightarrow> (Some e, w')
      | (None, w') \<Rightarrow>
          (let w1 = emit (St_success (summary_text rep s)) w'
           in if error_count s > 0
              then (None, emit (St_error
                      ''Some messages could not be processed. Check logs for details.'') w1)
              else (None, w1)))"

text \<open>Line 267; the message starts with the three bytes of a check mark.\<close>

definition no_work_text :: "string \<Rightarrow> string" where
  "no_work_text owner =
     [CHR 0xE2, CHR 0x9C, CHR 0x85] @ '' No new messages found in Supabase for user ''
       @ [CHR 0x27] @ owner @ [CHR 0x27] @ '' to train with.''"

text \<open>The handler of the button, lines 249 to 344.\<close>

definition start_training :: "services \<Rightarrow> cfg \<Rightarrow> replica \<Rightarrow> world \<Rightarrow> outcome \<times> world" where
  "start_training sv c rep w =
     (if \<not> truthy_str (replica_owner rep) then
        (Aborted,
         emit (St_error
                 ''Cannot determine Slack User ID (ownerID) for this replica. Training aborted.'') w)
      else
        (case fetch_unprocessed sv (supabase_table_name c) (fmt_opt (replica_owner rep))
                (emit (Progress_bar 0 1 ''Initializing training...'') w) of
           (Inl e, w') \<Rightarrow>
             (Stopped,
              emit Log_area_empty (emit Progress_empty
                (emit (St_error (''Error fetching messages from Supabase: '' @ exn_str e)) w')))
         | (Inr messages_to_train, w') \<Rightarrow>
             if messages_to_train = [] then
               (Stopped,
                emit Log_area_empty (emit Progress_empty
                  (emit (St_info (no_work_text (fmt_opt (replica_owner rep)))) w')))
             else
               (case train_loop sv c rep (length messages_to_train) 0 messages_to_train
                       initial_run
                       (emit (St_success (''Found '' @ str_nat (length messages_to_train)
                                            @ '' new Slack messages to train with.'')) w') of
                  (Inl e, w'') \<Rightarrow> (Raised e, w'')
                | (Inr s, w'') \<Rightarrow>
                    (case report rep s w'' of
                       (Some e, w3) \<Rightarrow> (Raised e, w3)
                     | (None, w3) \<Rightarrow> (Completed s, w3)))))"

section \<open>Vocabulary of the properties\<close>

text \<open>The verbs the client knows, whatever their case.\<close>

definition supported :: "string \<Rightarrow> bool" where
  "supported method \<longleftrightarrow> upper method \<in> {''GET'', ''POST'', ''PUT'', ''DELETE''}"

text \<open>The status codes for which \<^verbatim>\<open>raise_for_status\<close> raises.\<close>

definition error_status :: "http_response \<Rightarrow> bool" where
  "error_status r \<longleftrightarrow> 400 \<le> status_code r \<and> status_code r < 600"

text \<open>What the client returns for what \<^verbatim>\<open>requests\<close> gave it.\<close>

definition answer :: "(py_exception + http_response) \<Rightarrow> py_exception + (json \<times> json)" where
  "answer sent = (case check_and_parse sent of Inr res \<Rightarrow> Inr res | Inl e \<Rightarrow> handle e)"

subsection \<open>Concrete inputs\<close>

text \<open>\<^verbatim>\<open>str()\<close> on the scalar JSON values; the inputs below hold no other ones.\<close>

definition str_scalar :: "json \<Rightarrow> string" where
  "str_scalar j =
     (case j of
        JStr s \<Rightarrow> s
      | JNum n \<Rightarrow> (if n < 0 then ''-'' @ str_nat (nat (- n)) else str_nat (nat n))
      | JNull \<Rightarrow> ''None''
      | JBool b \<Rightarrow> (if b then ''True'' else ''False'')
      | JArr xs \<Rightarrow> ''[]''
      | JObj kvs \<Rightarrow> ''{}'')"

text \<open>A remote service that gives the same answer to every call, and a store that never fails.\<close>

definition always :: "(py_exception + http_response) \<Rightarrow> services" where
  "always a = \<lparr>remote = (\<lambda>k rq. a), select_raises = None, update_raises = (\<lambda>k i. None),
     py_str = str_scalar\<rparr>"

definition redirect_response :: http_response where
  "redirect_response = \<lparr>status_code = 300, text_body = ''{}'',
     json_body = Inr (JObj [(''choices'', JArr [])]), status_error_text = []\<rparr>"

definition server_error_response :: http_response where
  "server_error_response = \<lparr>status_code = 500, text_body = ''Internal Server Error'',
     json_body = Inl ''Expecting value'', status_error_text = ''500 Server Error''\<rparr>"

definition empty_world :: world where
  "empty_world = \<lparr>table = [], trace = [], widget_keys = []\<rparr>"

subsection \<open>The two calls of an iteration\<close>

text \<open>
  The request of lines 293 to 297 (create an empty knowledge-base entry) and the one of lines
  313 to 317 (set the raw text of entry \<open>knowledge_base_id\<close>), as \<open>make_sensay_request\<close>
  hands them to \<^verbatim>\<open>requests\<close>.
\<close>

definition std_headers :: "cfg \<Rightarrow> (string \<times> string) list" where
  "std_headers c = [(''X-ORGANIZATION-SECRET'', sensay_org_secret c),
                    (''X-API-Version'', sensay_api_version c),
                    (''Content-Type'', ''application/json'')]"

definition create_request :: "cfg \<Rightarrow> replica \<Rightarrow> request" where
  "create_request c rep =
     \<lparr>verb = ''POST'',
      url = SENSAY_API_BASE_URL @ ''/replicas/'' @ fmt_opt (replica_uuid rep) @ ''/training'',
      headers = std_headers c, req_params = None, req_json = Some (JObj []), timeout = 30\<rparr>"

definition fill_request :: "services \<Rightarrow> cfg \<Rightarrow> replica \<Rightarrow> json \<Rightarrow> string \<Rightarrow> request" where
  "fill_request sv c rep knowledge_base_id content =
     \<lparr>verb = ''PUT'',
      url = SENSAY_API_BASE_URL @ ''/replicas/'' @ fmt_opt (replica_uuid rep) @ ''/training/''
              @ py_str sv knowledge_base_id,
      headers = std_headers c, req_params = None,
      req_json = Some (JObj [(''rawText'', JStr content)]), timeout = 30\<rparr>"

subsection \<open>Log lines and tables\<close>

fun is_Trained :: "log_line \<Rightarrow> bool" where
  "is_Trained (Trained i kb) = True"
| "is_Trained l = False"

text \<open>
  \<open>marks_only t t'\<close>: table \<open>t'\<close> is table \<open>t\<close> where some rows had their processed flag set
  to true and nothing else happened.
\<close>

definition marks_only :: "db_row list \<Rightarrow> db_row list \<Rightarrow> bool" where
  "marks_only t t' \<longleftrightarrow>
     list_all2 (\<lambda>a b. b = a \<or> b = a\<lparr>processed_for_sensay := True\<rparr>) t t'"

subsection \<open>A small backlog\<close>

definition quoted :: "string \<Rightarrow> string" where
  "quoted s = [CHR 0x22] @ s @ [CHR 0x22]"

definition ok_create_response :: http_response where
  "ok_create_response = \<lparr>status_code = 200,
     text_body = ''{'' @ quoted ''success'' @ '': true, '' @ quoted ''knowledgeBaseID'' @ '': 7}'',
     json_body = Inr (JObj [(''success'', JBool True), (''knowledgeBaseID'', JNum 7)]),
     status_error_text = []\<rparr>"

definition ok_fill_response :: http_response where
  "ok_fill_response = \<lparr>status_code = 200,
     text_body = ''{'' @ quoted ''success'' @ '': true}'',
     json_body = Inr (JObj [(''success'', JBool True)]),
     status_error_text = []\<rparr>"

text \<open>
  A remote service that creates and fills entries as asked for its first \<open>n\<close> calls and
  answers every later call with status 500; the store never fails.
\<close>

definition healthy_until :: "nat \<Rightarrow> services" where
  "healthy_until n =
     \<lparr>remote = (\<lambda>k rq. if k < n
                         then (if verb rq = ''POST'' then Inr ok_create_response
                               else Inr ok_fill_response)
                         else Inr server_error_response),
      select_raises = None, update_raises = (\<lambda>k i. None), py_str = str_scalar\<rparr>"

definition demo_cfg :: cfg where
  "demo_cfg = \<lparr>sensay_org_secret = ''secret'', sensay_api_version = ''2025-03-25'',
     supabase_table_name = ''slack_messages_for_sensay''\<rparr>"

definition demo_replica :: replica where
  "demo_replica = \<lparr>replica_name = Some ''demo'', replica_uuid = Some ''r-1'',
     replica_owner = Some ''U1''\<rparr>"

definition row1 :: db_row where
  "row1 = \<lparr>row_id = 1, slack_user_id = ''U1'', message_content = Some ''hi'',
     slack_message_ts = Some ''1700000001.000100'', processed_for_sensay = False,
     created_at = 1\<rparr>"

definition row2 :: db_row where
  "row2 = \<lparr>row_id = 2, slack_user_id = ''U1'', message_content = Some ''bye'',
     slack_message_ts = Some ''1700000002.000200'', processed_for_sensay = False,
     created_at = 2\<rparr>"

definition two_rows :: world where
  "two_rows = \<lparr>table = [row1, row2], trace = [], widget_keys = []\<rparr>"

subsection \<open>More services and stores\<close>

text \<open>A remote service that creates and fills every entry as asked; the store never fails.\<close>

definition healthy :: services where
  "healthy =
     \<lparr>remote = (\<lambda>k rq. if verb rq = ''POST'' then Inr ok_create_response
                         else Inr ok_fill_response),
      select_raises = None, update_raises = (\<lambda>k i. None), py_str = str_scalar\<rparr>"

subsection \<open>Calls that fail\<close>

text \<open>
  The call comes back to the loop as an error: \<^verbatim>\<open>requests\<close> raised, or the service answered
  with a 4XX or 5XX status, or with a body that is not JSON.
\<close>

definition call_errors :: "(py_exception + http_response) \<Rightarrow> bool" where
  "call_errors a =
     (case a of
        Inl e \<Rightarrow> True
      | Inr r \<Rightarrow> error_status r \<or> (case json_body r of Inl x \<Rightarrow> True | Inr j \<Rightarrow> False))"

text \<open>The rows of a table with a given id.\<close>

definition rows_with_id :: "int \<Rightarrow> db_row list \<Rightarrow> db_row list" where
  "rows_with_id i t = filter (\<lambda>r. row_id r = i) t"

text \<open>
  An answer with status 200 whose \<^verbatim>\<open>success\<close> is false, and a service that creates every
  entry and answers every other call that way.
\<close>

definition unflagged_response :: http_response where
  "unflagged_response = \<lparr>status_code = 200,
     text_body = ''{'' @ quoted ''success'' @ '': false}'',
     json_body = Inr (JObj [(''success'', JBool False)]),
     status_error_text = []\<rparr>"

definition fill_unflagged :: services where
  "fill_unflagged =
     \<lparr>remote = (\<lambda>k rq. if verb rq = ''POST'' then Inr ok_create_response
                         else Inr unflagged_response),
      select_raises = None, update_raises = (\<lambda>k i. None), py_str = str_scalar\<rparr>"

subsection \<open>Reading a trace\<close>

text \<open>The outbound calls and the delays of a trace, and its final messages.\<close>

fun call_or_delay :: "event \<Rightarrow> bool" where
  "call_or_delay (Net rq) = True"
| "call_or_delay (Sleep_ms n) = True"
| "call_or_delay e = False"

fun is_St_success :: "event \<Rightarrow> bool" where
  "is_St_success (St_success m) = True"
| "is_St_success e = False"


subsection \<open>Answers the loop can read\<close>





text \<open>A third row, and an answer with status 200 whose body is a JSON list.\<close>

definition row3 :: db_row where
  "row3 = \<lparr>row_id = 3, slack_user_id = ''U1'', message_content = Some ''again'',
     slack_message_ts = Some ''1700000003.000300'', processed_for_sensay = False,
     created_at = 3\<rparr>"

definition three_rows :: world where
  "three_rows = \<lparr>table = [row1, row2, row3], trace = [], widget_keys = []\<rparr>"

definition list_body_response :: http_response where
  "list_body_response = \<lparr>status_code = 200, text_body = ''[1]'',
     json_body = Inr (JArr [JNum 1]), status_error_text = []\<rparr>"

section \<open>The request client\<close>

lemma try_block_unsupported:
  "\<not> supported m \<Longrightarrow>
   try_block sv m u hs jd p w = (Inr (JNull, JObj [(''error'', JStr ''Unsupported HTTP method'')]), w)"
  by (simp add: try_block_def supported_def)

lemma try_block_supported:
  "supported m \<Longrightarrow>
   \<exists>rq. try_block sv m u hs jd p w = (check_and_parse (remote sv (net_count w) rq), emit (Net rq) w)
       \<and> verb rq = upper m \<and> url rq = u \<and> headers rq = hs \<and> timeout rq = 30"
  by (auto simp add: try_block_def supported_def send_def)

lemma request_unsupported:
  "\<not> supported m \<Longrightarrow>
   make_sensay_request sv m ep s v jd p u w =
     (Inr (JNull, JObj [(''error'', JStr ''Unsupported HTTP method'')]), w)"
  by (simp add: make_sensay_request_def try_block_unsupported)

lemma request_supported:
  assumes "supported m"
  shows "\<exists>rq. make_sensay_request sv m ep s v jd p u w
             = (answer (remote sv (net_count w) rq), emit (Net rq) w)
       \<and> verb rq = upper m \<and> url rq = SENSAY_API_BASE_URL @ ep \<and> timeout rq = 30"
proof -
  let ?hs = "[(''X-ORGANIZATION-SECRET'', s), (''X-API-Version'', v),
              (''Content-Type'', ''application/json'')]
             @ (if truthy_str u then [(''X-USER-ID'', fmt_opt u)] else [])"
  obtain rq where rq: "try_block sv m (SENSAY_API_BASE_URL @ ep) ?hs jd p w
        = (check_and_parse (remote sv (net_count w) rq), emit (Net rq) w)"
      "verb rq = upper m" "url rq = SENSAY_API_BASE_URL @ ep" "timeout rq = 30"
    using try_block_supported [OF assms] by blast
  have "make_sensay_request sv m ep s v jd p u w
          = (answer (remote sv (net_count w) rq), emit (Net rq) w)"
    using rq(1) by (simp add: make_sensay_request_def answer_def split: sum.splits)
  with rq show ?thesis by blast
qed

lemma handle_Inr: "\<exists>d e. handle x = Inr (d, e)"
  by (cases x) simp_all

lemma answer_Inr: "\<exists>d e. answer a = Inr (d, e)"
proof (cases "check_and_parse a")
  case (Inl x)
  then show ?thesis using handle_Inr [of x] by (simp add: answer_def)
next
  case (Inr res)
  then show ?thesis by (cases res) (simp add: answer_def)
qed

lemma answer_parsed:
  "\<not> error_status r \<Longrightarrow> json_body r = Inr j \<Longrightarrow> answer (Inr r) = Inr (j, JNull)"
  by (simp add: answer_def check_and_parse_def raise_for_status_def response_json_def error_status_def)

lemma answer_not_json:
  "\<not> error_status r \<Longrightarrow> json_body r = Inl x \<Longrightarrow>
   answer (Inr r) = Inr (JNull, JObj [(''error'', JStr (''Request error occurred: '' @ x))])"
  by (simp add: answer_def check_and_parse_def raise_for_status_def response_json_def error_status_def)

lemma answer_error_status:
  "error_status r \<Longrightarrow>
   answer (Inr r) = Inr (JNull, JObj [(''error'', JStr (''HTTP error occurred: '' @ status_error_text r)),
       (''status_code'', JNum (int (status_code r))),
       (''details'', (case json_body r of Inr j \<Rightarrow> j | Inl x \<Rightarrow> JStr (text_body r)))])"
  by (simp add: answer_def check_and_parse_def raise_for_status_def response_json_def error_status_def
      split: sum.splits)

lemma answer_network:
  "answer (Inl (RequestException x)) = Inr (JNull, JObj [(''error'', JStr (''Request error occurred: '' @ x))])"
  by (simp add: answer_def check_and_parse_def)

text \<open>
  C4, as the code has it. \<open>make_sensay_request\<close> always returns a pair and never raises. For a
  verb outside GET, POST, PUT and DELETE it returns the local error and the world is unchanged:
  no call was made. For a supported verb it makes exactly one call, and on the answer to it:
  \<^item> a response whose status is outside 400..599 and whose body parses as JSON gives the parsed
    body and no error;
  \<^item> such a response whose body is not JSON gives an error that holds a message only;
  \<^item> a response with a status in 400..599 gives an error holding the status code and, as
    details, the parsed body, or the raw text when the body is not JSON;
  \<^item> a network failure gives an error that holds a message only, no status code.
\<close>

theorem make_sensay_request_results:
  assumes "make_sensay_request sv m ep s v jd p u w = (res, w')"
  shows "(\<exists>d e. res = Inr (d, e))
       \<and> (\<not> supported m \<longrightarrow>
            w' = w \<and> res = Inr (JNull, JObj [(''error'', JStr ''Unsupported HTTP method'')]))
       \<and> (supported m \<longrightarrow>
            (\<exists>rq. w' = emit (Net rq) w \<and> verb rq = upper m \<and> url rq = SENSAY_API_BASE_URL @ ep
               \<and> (\<forall>r j. remote sv (net_count w) rq = Inr r \<longrightarrow> \<not> error_status r
                      \<longrightarrow> json_body r = Inr j \<longrightarrow> res = Inr (j, JNull))
               \<and> (\<forall>r x. remote sv (net_count w) rq = Inr r \<longrightarrow> \<not> error_status r
                      \<longrightarrow> json_body r = Inl x
                      \<longrightarrow> res = Inr (JNull, JObj [(''error'', JStr (''Request error occurred: '' @ x))]))
               \<and> (\<forall>r. remote sv (net_count w) rq = Inr r \<longrightarrow> error_status r
                      \<longrightarrow> res = Inr (JNull,
                            JObj [(''error'', JStr (''HTTP error occurred: '' @ status_error_text r)),
                                  (''status_code'', JNum (int (status_code r))),
                                  (''details'', (case json_body r of
                                                   Inr j \<Rightarrow> j | Inl x \<Rightarrow> JStr (text_body r)))]))
               \<and> (\<forall>x. remote sv (net_count w) rq = Inl (RequestException x)
                      \<longrightarrow> res = Inr (JNull,
                            JObj [(''error'', JStr (''Request error occurred: '' @ x))]))))"
proof (cases "supported m")
  case False
  then show ?thesis using assms by (auto simp add: request_unsupported)
next
  case True
  obtain rq where rq: "make_sensay_request sv m ep s v jd p u w
             = (answer (remote sv (net_count w) rq), emit (Net rq) w)"
       "verb rq = upper m" "url rq = SENSAY_API_BASE_URL @ ep"
    using request_supported [OF True] by blast
  from rq(1) assms have res: "res = answer (remote sv (net_count w) rq)" and w': "w' = emit (Net rq) w"
    by simp_all
  have 1: "\<exists>d e. res = Inr (d, e)" using res answer_Inr by simp
  have 2: "\<forall>r j. remote sv (net_count w) rq = Inr r \<longrightarrow> \<not> error_status r
                      \<longrightarrow> json_body r = Inr j \<longrightarrow> res = Inr (j, JNull)"
    using res by (simp add: answer_parsed)
  have 3: "\<forall>r x. remote sv (net_count w) rq = Inr r \<longrightarrow> \<not> error_status r
                      \<longrightarrow> json_body r = Inl x
                      \<longrightarrow> res = Inr (JNull, JObj [(''error'', JStr (''Request error occurred: '' @ x))])"
    using res by (simp add: answer_not_json)
  have 4: "\<forall>r. remote sv (net_count w) rq = Inr r \<longrightarrow> error_status r
                      \<longrightarrow> res = Inr (JNull,
                            JObj [(''error'', JStr (''HTTP error occurred: '' @ status_error_text r)),
                                  (''status_code'', JNum (int (status_code r))),
                                  (''details'', (case json_body r of
                                                   Inr j \<Rightarrow> j | Inl x \<Rightarrow> JStr (text_body r)))])"
    using res by (simp add: answer_error_status)
  have 5: "\<forall>x. remote sv (net_count w) rq = Inl (RequestException x)
                      \<longrightarrow> res = Inr (JNull,
                            JObj [(''error'', JStr (''Request error occurred: '' @ x))])"
    using res by (simp add: answer_network)
  from True 1 2 3 4 5 w' rq(2,3) show ?thesis by blast
qed

text \<open>
  C4 as the specification words it fails: a response with status 300 is not a 2xx response, and
  the client returns its parsed body with no error.
\<close>

theorem non_2xx_without_error:
  "status_code redirect_response = 300
   \<and> fst (make_sensay_request (always (Inr redirect_response)) ''GET'' ''/replicas'' ''secret''
            ''2025-03-25'' JNull JNull None empty_world)
       = Inr (JObj [(''choices'', JArr [])], JNull)"
  by code_simp


text \<open>
  The theorem of C4 at a PUT, written in lower case, that the service answers with status 500
  and a body that is not JSON: the error holds the status code and the raw text.
\<close>

theorem make_sensay_request_results_witness:
  "supported ''put'' \<and> error_status server_error_response
   \<and> fst (make_sensay_request (always (Inr server_error_response)) ''put'' ''/replicas'' ''secret''
            ''2025-03-25'' JNull JNull None empty_world)
       = Inr (JNull, JObj [(''error'', JStr ''HTTP error occurred: 500 Server Error''),
                           (''status_code'', JNum 500),
                           (''details'', JStr ''Internal Server Error'')])"
proof -
  let ?sv = "always (Inr server_error_response)"
  let ?call = "make_sensay_request ?sv ''put'' ''/replicas'' ''secret'' ''2025-03-25'' JNull JNull
                 None empty_world"
  have run: "?call = (fst ?call, snd ?call)" by simp
  have sup: "supported ''put''" by code_simp
  have err: "error_status server_error_response"
    by (simp add: error_status_def server_error_response_def)
  have rem: "\<And>k rq. remote ?sv k rq = Inr server_error_response" by (simp add: always_def)
  from make_sensay_request_results [OF run] sup
  obtain rq where "\<forall>r. remote ?sv (net_count empty_world) rq = Inr r \<longrightarrow> error_status r
       \<longrightarrow> fst ?call = Inr (JNull,
              JObj [(''error'', JStr (''HTTP error occurred: '' @ status_error_text r)),
                    (''status_code'', JNum (int (status_code r))),
                    (''details'', (case json_body r of
                                     Inr j \<Rightarrow> j | Inl x \<Rightarrow> JStr (text_body r)))])"
    by blast
  with rem err have "fst ?call = Inr (JNull,
              JObj [(''error'', JStr (''HTTP error occurred: '' @ status_error_text server_error_response)),
                    (''status_code'', JNum (int (status_code server_error_response))),
                    (''details'', (case json_body server_error_response of
                                     Inr j \<Rightarrow> j | Inl x \<Rightarrow> JStr (text_body server_error_response)))])"
    by blast
  then show ?thesis using sup err by (simp add: server_error_response_def)
qed

section \<open>The training loop, step by step\<close>

lemma upper_POST: "upper ''POST'' = ''POST''" by code_simp
lemma upper_PUT: "upper ''PUT'' = ''PUT''" by code_simp

lemma post_call:
  "make_sensay_request sv ''POST'' ep s v jd p None w
     = (answer (remote sv (net_count w)
          \<lparr>verb = ''POST'', url = SENSAY_API_BASE_URL @ ep,
           headers = [(''X-ORGANIZATION-SECRET'', s), (''X-API-Version'', v),
                      (''Content-Type'', ''application/json'')],
           req_params = None, req_json = Some jd, timeout = 30\<rparr>),
        emit (Net \<lparr>verb = ''POST'', url = SENSAY_API_BASE_URL @ ep,
           headers = [(''X-ORGANIZATION-SECRET'', s), (''X-API-Version'', v),
                      (''Content-Type'', ''application/json'')],
           req_params = None, req_json = Some jd, timeout = 30\<rparr>) w)"
  by (simp add: make_sensay_request_def try_block_def upper_POST send_def answer_def
      split: sum.splits)

lemma put_call:
  "make_sensay_request sv ''PUT'' ep s v jd p None w
     = (answer (remote sv (net_count w)
          \<lparr>verb = ''PUT'', url = SENSAY_API_BASE_URL @ ep,
           headers = [(''X-ORGANIZATION-SECRET'', s), (''X-API-Version'', v),
                      (''Content-Type'', ''application/json'')],
           req_params = None, req_json = Some jd, timeout = 30\<rparr>),
        emit (Net \<lparr>verb = ''PUT'', url = SENSAY_API_BASE_URL @ ep,
           headers = [(''X-ORGANIZATION-SECRET'', s), (''X-API-Version'', v),
                      (''Content-Type'', ''application/json'')],
           req_params = None, req_json = Some jd, timeout = 30\<rparr>) w)"
  by (simp add: make_sensay_request_def try_block_def upper_PUT send_def answer_def
      split: sum.splits)

lemma create_call:
  "make_sensay_request sv ''POST'' (''/replicas/'' @ fmt_opt (replica_uuid rep) @ ''/training'')
      (sensay_org_secret c) (sensay_api_version c) (JObj []) JNull None w
   = (answer (remote sv (net_count w) (create_request c rep)), emit (Net (create_request c rep)) w)"
  by (simp add: post_call create_request_def std_headers_def)

lemma fill_call:
  "make_sensay_request sv ''PUT''
      (''/replicas/'' @ fmt_opt (replica_uuid rep) @ ''/training/'' @ py_str sv kb)
      (sensay_org_secret c) (sensay_api_version c) (JObj [(''rawText'', JStr content)]) JNull None w
   = (answer (remote sv (net_count w) (fill_request sv c rep kb content)),
      emit (Net (fill_request sv c rep kb content)) w)"
  by (simp add: put_call fill_request_def std_headers_def)

lemma net_count_emit:
  "net_count (emit e w) = (if is_Net e then Suc (net_count w) else net_count w)"
  by (simp add: net_count_def emit_def)

lemma table_emit: "table (emit e w) = table w"
  by (simp add: emit_def)

lemma trace_emit: "trace (emit e w) = trace w @ [e]"
  by (simp add: emit_def)

lemma widget_keys_emit: "widget_keys (emit e w) = widget_keys w"
  by (simp add: emit_def)

text \<open>The end of an iteration: the key of the live log is taken already, or it is free.\<close>

lemma end_of_iteration_eq:
  "end_of_iteration rep s w =
     (if live_log_key rep \<in> set (widget_keys w)
      then (Inl (StreamlitDuplicateElementKey (live_log_key rep)), w)
      else (Inr s, emit (Sleep_ms 200)
                     (emit (Log_area ''Training Log'' (last10 (training_logs s)))
                        (w\<lparr>widget_keys := live_log_key rep # widget_keys w\<rparr>))))"
  by (simp add: end_of_iteration_def text_area_def)

text \<open>The iteration with its two calls resolved.\<close>

lemma fill_step_eq:
  "fill_step sv c rep msg content kb s w =
     (case answer (remote sv (net_count w) (fill_request sv c rep kb content)) of
        Inl e \<Rightarrow> (Inl e, emit (Net (fill_request sv c rep kb content)) w)
      | Inr (d, er) \<Rightarrow>
          (case call_failed d er of
             Inl e \<Rightarrow> (Inl e, emit (Net (fill_request sv c rep kb content)) w)
           | Inr True \<Rightarrow>
               end_of_iteration rep (log_error (Fill_failed kb (msg_ts msg) (py_or er d)) s)
                 (emit (Net (fill_request sv c rep kb content)) w)
           | Inr False \<Rightarrow>
               end_of_iteration rep
                 (fst (mark_step sv c msg kb s (emit (Net (fill_request sv c rep kb content)) w)))
                 (snd (mark_step sv c msg kb s (emit (Net (fill_request sv c rep kb content)) w)))))"
  unfolding fill_step_def fill_call
  by (simp add: Let_def split: sum.splits prod.splits bool.splits)

lemma loop_body_eq:
  "loop_body sv c rep total_messages i msg s w =
     (case msg_content msg of
        None \<Rightarrow> (Inl (TypeError (single_quoted ''NoneType'' @ '' object is not subscriptable'')), w)
      | Some content \<Rightarrow>
          (let w0 = emit (Progress_bar (i + 1) total_messages (progress_text i total_messages content)) w;
               w1 = emit (Net (create_request c rep)) w0
           in case answer (remote sv (net_count w) (create_request c rep)) of
                Inl e \<Rightarrow> (Inl e, w1)
              | Inr (d, er) \<Rightarrow>
                 (case call_failed d er of
                    Inl e \<Rightarrow> (Inl e, w1)
                  | Inr True \<Rightarrow> (Inr (log_error (Create_failed (msg_ts msg) (py_or er d)) s), w1)
                  | Inr False \<Rightarrow>
                      (case dict_get d ''knowledgeBaseID'' of
                         Inl e \<Rightarrow> (Inl e, w1)
                       | Inr kb \<Rightarrow>
                           if \<not> truthy kb
                           then (Inr (log_error (Missing_kb_id (msg_ts msg)) s), w1)
                           else fill_step sv c rep msg content kb s w1))))"
  unfolding loop_body_def create_call
  by (simp add: Let_def net_count_emit split: option.splits sum.splits prod.splits bool.splits)



lemma mark_step_eq:
  "mark_step sv c msg kb s w =
     (case update_raises sv (update_count w) (msg_id msg) of
        None \<Rightarrow> (log_processed (Trained (msg_id msg) kb) s,
                 emit (Store_update (supabase_table_name c) (msg_id msg))
                   (w\<lparr>table := set_processed (msg_id msg) (table w)\<rparr>))
      | Some e \<Rightarrow> (log_error (Mark_failed (msg_ts msg) (exn_str e)) s,
                   emit (Store_update (supabase_table_name c) (msg_id msg)) w))"
  by (simp add: mark_step_def mark_processed_def split: option.splits)

lemma step_counts:
  assumes "loop_body sv c rep total_messages i msg s w = (Inr s', w')"
  shows "\<exists>l. training_logs s' = training_logs s @ [l]
           \<and> ((processed_count s' = processed_count s + 1 \<and> error_count s' = error_count s
                 \<and> is_Trained l)
              \<or> (processed_count s' = processed_count s \<and> error_count s' = error_count s + 1
                 \<and> \<not> is_Trained l))"
  using assms
  by (auto simp add: loop_body_eq fill_step_eq mark_step_eq end_of_iteration_eq Let_def
      log_error_def log_processed_def
      split: option.splits sum.splits prod.splits bool.splits if_splits)

lemma step_table:
  assumes "loop_body sv c rep total_messages i msg s w = (r, w')"
  shows "table w' = table w \<or> table w' = set_processed (msg_id msg) (table w)"
  using assms
  by (auto simp add: loop_body_eq fill_step_eq mark_step_eq end_of_iteration_eq Let_def table_emit
      split: option.splits sum.splits prod.splits bool.splits if_splits)

lemma marks_only_refl: "marks_only t t"
  by (simp add: marks_only_def list_all2_refl)

lemma marks_only_trans:
  assumes "marks_only t t'" and "marks_only t' t''"
  shows "marks_only t t''"
  unfolding marks_only_def
proof (rule list_all2_trans [OF _ assms(1) [unfolded marks_only_def] assms(2) [unfolded marks_only_def]])
  fix a b c :: db_row
  assume "b = a \<or> b = a\<lparr>processed_for_sensay := True\<rparr>"
    and "c = b \<or> c = b\<lparr>processed_for_sensay := True\<rparr>"
  then show "c = a \<or> c = a\<lparr>processed_for_sensay := True\<rparr>" by auto
qed

lemma marks_only_set_processed: "marks_only t (set_processed i t)"
  by (simp add: marks_only_def set_processed_def list_all2_map2 list_all2_refl)

lemma marks_only_monotone:
  "marks_only t t' \<Longrightarrow> n < length t \<Longrightarrow> processed_for_sensay (t ! n)
     \<Longrightarrow> processed_for_sensay (t' ! n)"
  unfolding marks_only_def
  by (auto dest: list_all2_nthD)

lemma set_processed_marked:
  assumes "r \<in> set (set_processed i t)" and "row_id r = i"
  shows "processed_for_sensay r"
proof -
  from assms(1) obtain a where a: "a \<in> set t"
      and r: "r = (if row_id a = i then a\<lparr>processed_for_sensay := True\<rparr> else a)"
    unfolding set_processed_def set_map by (rule imageE)
  show ?thesis
  proof (cases "row_id a = i")
    case True
    with r show ?thesis by simp
  next
    case False
    with r have "r = a" by simp
    with False assms(2) show ?thesis by simp
  qed
qed

lemma step_marks_only:
  assumes "loop_body sv c rep total_messages i msg s w = (r, w')"
  shows "marks_only (table w) (table w')"
  using step_table [OF assms] by (auto simp add: marks_only_refl marks_only_set_processed)

lemma loop_marks_only:
  "train_loop sv c rep total_messages i msgs s w = (r, w') \<Longrightarrow> marks_only (table w) (table w')"
proof (induction msgs arbitrary: i s w)
  case Nil
  then show ?case by (simp add: marks_only_refl)
next
  case (Cons msg rest)
  obtain r1 w1 where b: "loop_body sv c rep total_messages i msg s w = (r1, w1)"
    by (cases "loop_body sv c rep total_messages i msg s w")
  have m1: "marks_only (table w) (table w1)" using step_marks_only [OF b] .
  show ?case
  proof (cases r1)
    case (Inl e)
    with Cons.prems b have "w' = w1" by simp
    with m1 show ?thesis by simp
  next
    case (Inr s1)
    with Cons.prems b have "train_loop sv c rep total_messages (Suc i) rest s1 w1 = (r, w')"
      by simp
    from Cons.IH [OF this] m1 show ?thesis by (rule marks_only_trans [rotated])
  qed
qed

lemma loop_counts:
  "train_loop sv c rep total_messages i msgs s w = (Inr s', w') \<Longrightarrow>
     processed_count s' + error_count s' = processed_count s + error_count s + length msgs
     \<and> length (training_logs s') = length (training_logs s) + length msgs"
proof (induction msgs arbitrary: i s w)
  case Nil
  then show ?case by simp
next
  case (Cons msg rest)
  obtain r1 w1 where b: "loop_body sv c rep total_messages i msg s w = (r1, w1)"
    by (cases "loop_body sv c rep total_messages i msg s w")
  show ?case
  proof (cases r1)
    case (Inl e)
    with Cons.prems b show ?thesis by simp
  next
    case (Inr s1)
    with Cons.prems b have rest: "train_loop sv c rep total_messages (Suc i) rest s1 w1 = (Inr s', w')"
      by simp
    from step_counts [OF b [unfolded Inr]]
    have "processed_count s1 + error_count s1 = processed_count s + error_count s + 1"
      and "length (training_logs s1) = length (training_logs s) + 1" by auto
    with Cons.IH [OF rest] show ?thesis by simp
  qed
qed

lemma train_loop_append:
  "train_loop sv c rep total_messages i (xs @ ys) s w =
     (case train_loop sv c rep total_messages i xs s w of
        (Inl e, w') \<Rightarrow> (Inl e, w')
      | (Inr s', w') \<Rightarrow> train_loop sv c rep total_messages (i + length xs) ys s' w')"
  by (induction xs arbitrary: i s w) (auto split: prod.splits sum.splits)

section \<open>Counters\<close>

text \<open>
  C2. A run over the backlog \<open>pre @ post\<close> that has gone through the rows \<open>pre\<close> is at the
  state \<open>s\<close>; by \<open>train_loop_append\<close> the run over the whole backlog passes through exactly
  these states. Whatever the remote service and the store answered, at that point
  processed + error is the number of rows gone through, so it is at most the total, and it is
  the total when no row is left. The next row, when its iteration ends, adds one to exactly one
  of the two counters and leaves the other as it is.
\<close>

theorem counters_partition_rows:
  assumes "train_loop sv c rep (length (pre @ post)) 0 pre initial_run w = (Inr s, w')"
  shows "processed_count s + error_count s = length pre
       \<and> processed_count s + error_count s \<le> length (pre @ post)
       \<and> (post = [] \<longrightarrow> processed_count s + error_count s = length (pre @ post))
       \<and> (\<forall>msg rest s2 w2. post = msg # rest
             \<longrightarrow> loop_body sv c rep (length (pre @ post)) (length pre) msg s w' = (Inr s2, w2)
             \<longrightarrow> (processed_count s2 = processed_count s + 1 \<and> error_count s2 = error_count s)
                \<or> (processed_count s2 = processed_count s \<and> error_count s2 = error_count s + 1))"
proof -
  from loop_counts [OF assms]
  have sum: "processed_count s + error_count s = length pre" by (simp add: initial_run_def)
  have step: "\<forall>msg rest s2 w2. post = msg # rest
             \<longrightarrow> loop_body sv c rep (length (pre @ post)) (length pre) msg s w' = (Inr s2, w2)
             \<longrightarrow> (processed_count s2 = processed_count s + 1 \<and> error_count s2 = error_count s)
                \<or> (processed_count s2 = processed_count s \<and> error_count s2 = error_count s + 1)"
    using step_counts by blast
  from sum step show ?thesis by simp
qed

text \<open>
  The theorem of C2 on the two-row backlog, where the first row is trained and the create call
  of the second is answered with status 500: after the first row the counters are 1 and 0, the
  second row moves the error counter alone, and at the end they are 1 and 1, two in all.
\<close>

theorem counters_partition_rows_witness:
  "fst (train_loop (healthy_until 2) demo_cfg demo_replica
          (length ([project row1] @ [project row2])) 0 [project row1] initial_run two_rows)
     = Inr \<lparr>processed_count = 1, error_count = 0, training_logs = [Trained 1 (JNum 7)]\<rparr>
   \<and> fst (train_loop (healthy_until 2) demo_cfg demo_replica
            (length ([project row1, project row2] @ [])) 0 [project row1, project row2]
            initial_run two_rows)
     = Inr \<lparr>processed_count = 1, error_count = 1,
            training_logs = [Trained 1 (JNum 7),
              Create_failed (Some ''1700000002.000200'')
                (JObj [(''error'', JStr ''HTTP error occurred: 500 Server Error''),
                       (''status_code'', JNum 500),
                       (''details'', JStr ''Internal Server Error'')])]\<rparr>
   \<and> (1::nat) + 0 = length [project row1]
   \<and> (1::nat) + 1 = length ([project row1, project row2] @ [])"
proof -
  let ?one = "train_loop (healthy_until 2) demo_cfg demo_replica
                (length ([project row1] @ [project row2])) 0 [project row1] initial_run two_rows"
  let ?all = "train_loop (healthy_until 2) demo_cfg demo_replica
                (length ([project row1, project row2] @ [])) 0 [project row1, project row2]
                initial_run two_rows"
  let ?s1 = "\<lparr>processed_count = 1, error_count = 0, training_logs = [Trained 1 (JNum 7)]\<rparr>"
  let ?s2 = "\<lparr>processed_count = 1, error_count = 1,
            training_logs = [Trained 1 (JNum 7),
              Create_failed (Some ''1700000002.000200'')
                (JObj [(''error'', JStr ''HTTP error occurred: 500 Server Error''),
                       (''status_code'', JNum 500),
                       (''details'', JStr ''Internal Server Error'')])]\<rparr>"
  have f1: "fst ?one = Inr ?s1" by code_simp
  have f2: "fst ?all = Inr ?s2" by code_simp
  have r1: "?one = (Inr ?s1, snd ?one)" using f1 by (metis prod.collapse)
  have r2: "?all = (Inr ?s2, snd ?all)" using f2 by (metis prod.collapse)
  have "processed_count ?s1 + error_count ?s1 = length [project row1]"
    using counters_partition_rows [OF r1] by blast
  then have a: "(1::nat) + 0 = length [project row1]" by simp
  have "processed_count ?s2 + error_count ?s2 = length ([project row1, project row2] @ [])"
    using counters_partition_rows [OF r2] by blast
  then have b: "(1::nat) + 1 = length ([project row1, project row2] @ [])" by simp
  from f1 f2 a b show ?thesis by blast
qed

section \<open>A run where every call succeeds\<close>

text \<open>
  C1 on a backlog of three rows, with a service that creates and fills every entry and a store
  that never fails. The first row is trained and followed by the delay. The second row is
  created, filled and marked, and then line 337 asks for the key of the live log a second
  time: Streamlit raises, the exception leaves the loop and the handler, no summary is shown,
  and the third row is never sent and stays unprocessed in the store.
\<close>

theorem duplicate_key_stops_loop:
  "fst (start_training healthy demo_cfg demo_replica three_rows)
     = Raised (StreamlitDuplicateElementKey ''training_log_display_r-1'')
   \<and> map processed_for_sensay
         (table (snd (start_training healthy demo_cfg demo_replica three_rows)))
     = [True, True, False]
   \<and> filter call_or_delay
         (trace (snd (start_training healthy demo_cfg demo_replica three_rows)))
     = [Net (create_request demo_cfg demo_replica),
        Net (fill_request healthy demo_cfg demo_replica (JNum 7) ''hi''),
        Sleep_ms 200,
        Net (create_request demo_cfg demo_replica),
        Net (fill_request healthy demo_cfg demo_replica (JNum 7) ''bye'')]
   \<and> filter is_St_success
         (trace (snd (start_training healthy demo_cfg demo_replica three_rows)))
     = [St_success ''Found 3 new Slack messages to train with.'']"
  by code_simp

section \<open>Rows whose calls fail\<close>

lemma handle_error: "\<exists>e. handle x = Inr (JNull, e) \<and> truthy e"
  by (cases x) simp_all

lemma call_errors_answer:
  assumes "call_errors a"
  shows "\<exists>e. answer a = Inr (JNull, e) \<and> truthy e"
proof (cases a)
  case (Inl x)
  then show ?thesis using handle_error [of x] by (simp add: answer_def check_and_parse_def)
next
  case (Inr r)
  show ?thesis
  proof (cases "error_status r")
    case True
    then show ?thesis using Inr by (simp add: answer_error_status)
  next
    case False
    with assms Inr obtain x where "json_body r = Inl x"
      by (auto simp add: call_errors_def split: sum.splits)
    with False Inr show ?thesis by (simp add: answer_not_json)
  qed
qed

lemma error_is_failure: "truthy e \<Longrightarrow> call_failed d e = Inr True"
  by (simp add: call_failed_def)

lemma rows_with_id_set_processed:
  assumes "i \<noteq> j"
  shows "rows_with_id i (set_processed j t) = rows_with_id i t"
proof (induction t)
  case Nil
  show ?case by (simp add: rows_with_id_def set_processed_def)
next
  case (Cons a t)
  have tl: "filter (\<lambda>r. row_id r = i) (set_processed j t) = filter (\<lambda>r. row_id r = i) t"
    using Cons.IH by (simp add: rows_with_id_def)
  have cons: "set_processed j (a # t)
      = (if row_id a = j then a\<lparr>processed_for_sensay := True\<rparr> else a) # set_processed j t"
    by (simp add: set_processed_def)
  show ?case
  proof (cases "row_id a = j")
    case True
    with assms have "row_id a \<noteq> i" by simp
    with True show ?thesis unfolding rows_with_id_def cons using tl by simp
  next
    case False
    then show ?thesis unfolding rows_with_id_def cons using tl by simp
  qed
qed

lemma step_rows_with_id:
  assumes "loop_body sv c rep total_messages i msg s w = (r, w')" and "k \<noteq> msg_id msg"
  shows "rows_with_id k (table w') = rows_with_id k (table w)"
  using step_table [OF assms(1)] rows_with_id_set_processed [OF assms(2)] by auto

lemma loop_rows_with_id:
  "train_loop sv c rep total_messages i msgs s w = (r, w') \<Longrightarrow> k \<notin> msg_id ` set msgs
     \<Longrightarrow> rows_with_id k (table w') = rows_with_id k (table w)"
proof (induction msgs arbitrary: i s w)
  case Nil
  then show ?case by simp
next
  case (Cons msg rest)
  obtain r1 w1 where b: "loop_body sv c rep total_messages i msg s w = (r1, w1)"
    by (cases "loop_body sv c rep total_messages i msg s w")
  from Cons.prems(2) have ne: "k \<noteq> msg_id msg" and nin: "k \<notin> msg_id ` set rest" by auto
  have t1: "rows_with_id k (table w1) = rows_with_id k (table w)"
    using step_rows_with_id [OF b ne] .
  show ?case
  proof (cases r1)
    case (Inl e)
    with Cons.prems(1) b have "w' = w1" by simp
    with t1 show ?thesis by simp
  next
    case (Inr s1)
    with Cons.prems(1) b have "train_loop sv c rep total_messages (Suc i) rest s1 w1 = (r, w')"
      by simp
    from Cons.IH [OF this nin] t1 show ?thesis by simp
  qed
qed

lemma loop_error_mono:
  "train_loop sv c rep total_messages i msgs s w = (Inr s', w')
     \<Longrightarrow> error_count s \<le> error_count s'"
proof (induction msgs arbitrary: i s w)
  case Nil
  then show ?case by simp
next
  case (Cons msg rest)
  obtain r1 w1 where b: "loop_body sv c rep total_messages i msg s w = (r1, w1)"
    by (cases "loop_body sv c rep total_messages i msg s w")
  show ?case
  proof (cases r1)
    case (Inl e)
    with Cons.prems b show ?thesis by simp
  next
    case (Inr s1)
    with Cons.prems b have rest: "train_loop sv c rep total_messages (Suc i) rest s1 w1 = (Inr s', w')"
      by simp
    from step_counts [OF b [unfolded Inr]] have "error_count s \<le> error_count s1" by auto
    with Cons.IH [OF rest] show ?thesis by simp
  qed
qed

lemma step_create_failed:
  assumes content: "msg_content msg = Some content"
    and ans: "answer (remote sv (net_count w) (create_request c rep)) = Inr (d, e)"
    and failed: "call_failed d e = Inr True"
  shows "loop_body sv c rep total_messages i msg s w
           = (Inr (log_error (Create_failed (msg_ts msg) (py_or e d)) s),
              emit (Net (create_request c rep))
                (emit (Progress_bar (i + 1) total_messages
                         (progress_text i total_messages content)) w))"
  using assms by (simp add: loop_body_eq Let_def)

text \<open>
  C5. Row \<open>msg\<close> is reached in state \<open>s\<close> and world \<open>w\<close>, the rows \<open>rest\<close> follow it and have
  other ids, and the create call for \<open>msg\<close> fails. Then the iteration ends with the error count
  one higher and the processed count as it was; its only effects are the progress text and the
  create call, so no fill call is made and the store is not touched; and when the loop is left,
  at its end or by an exception, the rows of the store with the id of \<open>msg\<close> are as they were,
  so a flag that was false is still false. When the loop reaches its end the error count is
  above the one \<open>msg\<close> was reached with.
\<close>

theorem create_failure_row:
  assumes "msg_content msg = Some content"
    and "call_errors (remote sv (net_count w) (create_request c rep))"
    and "msg_id msg \<notin> msg_id ` set rest"
    and "train_loop sv c rep total_messages i (msg # rest) s w = (out, wF)"
  shows "\<exists>s1 w1 e. loop_body sv c rep total_messages i msg s w = (Inr s1, w1)
     \<and> error_count s1 = error_count s + 1
     \<and> processed_count s1 = processed_count s
     \<and> training_logs s1 = training_logs s @ [Create_failed (msg_ts msg) e]
     \<and> trace w1 = trace w @ [Progress_bar (i + 1) total_messages
                                 (progress_text i total_messages content),
                               Net (create_request c rep)]
     \<and> table w1 = table w
     \<and> rows_with_id (msg_id msg) (table wF) = rows_with_id (msg_id msg) (table w)
     \<and> (\<forall>sF. out = Inr sF \<longrightarrow> error_count s < error_count sF)"
proof -
  obtain e where e: "answer (remote sv (net_count w) (create_request c rep)) = Inr (JNull, e)"
      "truthy e"
    using call_errors_answer [OF assms(2)] by blast
  let ?s1 = "log_error (Create_failed (msg_ts msg) (py_or e JNull)) s"
  let ?w1 = "emit (Net (create_request c rep))
               (emit (Progress_bar (i + 1) total_messages
                        (progress_text i total_messages content)) w)"
  have body: "loop_body sv c rep total_messages i msg s w = (Inr ?s1, ?w1)"
    using step_create_failed [OF assms(1) e(1) error_is_failure [OF e(2)]] .
  have rest: "train_loop sv c rep total_messages (Suc i) rest ?s1 ?w1 = (out, wF)"
    using assms(4) body by simp
  have a: "error_count ?s1 = error_count s + 1" by (simp add: log_error_def)
  have b: "processed_count ?s1 = processed_count s" by (simp add: log_error_def)
  have l: "training_logs ?s1 = training_logs s @ [Create_failed (msg_ts msg) (py_or e JNull)]"
    by (simp add: log_error_def)
  have t: "trace ?w1 = trace w @ [Progress_bar (i + 1) total_messages
                                 (progress_text i total_messages content),
                               Net (create_request c rep)]"
    by (simp add: trace_emit)
  have tb: "table ?w1 = table w" by (simp add: table_emit)
  have fr: "rows_with_id (msg_id msg) (table wF) = rows_with_id (msg_id msg) (table w)"
    using loop_rows_with_id [OF rest assms(3)] tb by simp
  have fin: "\<forall>sF. out = Inr sF \<longrightarrow> error_count s < error_count sF"
  proof (intro allI impI)
    fix sF assume "out = Inr sF"
    with rest have "error_count ?s1 \<le> error_count sF" using loop_error_mono by blast
    with a show "error_count s < error_count sF" by simp
  qed
  from body a b l t tb fr fin show ?thesis by blast
qed

text \<open>
  The theorem of C5 on the two-row backlog when the service answers every call with status 500,
  at the first row: one error is counted, nothing is processed, and row 1 of the store is as it
  was when the loop is left.
\<close>

theorem create_failure_row_witness:
  "\<exists>s1 w1. loop_body (always (Inr server_error_response)) demo_cfg demo_replica 2 0
              (project row1) initial_run two_rows = (Inr s1, w1)
     \<and> error_count s1 = 1 \<and> processed_count s1 = 0
     \<and> table w1 = [row1, row2]
     \<and> rows_with_id 1 (table (snd (train_loop (always (Inr server_error_response)) demo_cfg
                                     demo_replica 2 0 [project row1, project row2]
                                     initial_run two_rows)))
         = [row1]"
proof -
  let ?sv = "always (Inr server_error_response)"
  let ?run = "train_loop ?sv demo_cfg demo_replica 2 0 (project row1 # [project row2])
                initial_run two_rows"
  have h1: "msg_content (project row1) = Some ''hi''" by (simp add: project_def row1_def)
  have h2: "call_errors (remote ?sv (net_count two_rows) (create_request demo_cfg demo_replica))"
    by (simp add: always_def call_errors_def error_status_def server_error_response_def)
  have h3: "msg_id (project row1) \<notin> msg_id ` set [project row2]"
    by (simp add: project_def row1_def row2_def)
  have h4: "?run = (fst ?run, snd ?run)" by simp
  obtain s1 w1 where body: "loop_body ?sv demo_cfg demo_replica 2 0 (project row1) initial_run
                              two_rows = (Inr s1, w1)"
      and e: "error_count s1 = error_count initial_run + 1"
      and p: "processed_count s1 = processed_count initial_run"
      and t: "table w1 = table two_rows"
      and f: "rows_with_id (msg_id (project row1)) (table (snd ?run))
                = rows_with_id (msg_id (project row1)) (table two_rows)"
    using create_failure_row [OF h1 h2 h3 h4] by blast
  have e': "error_count s1 = 1" using e by (simp add: initial_run_def)
  have p': "processed_count s1 = 0" using p by (simp add: initial_run_def)
  have t': "table w1 = [row1, row2]" using t by (simp add: two_rows_def)
  have "msg_id (project row1) = 1" by (simp add: project_def row1_def)
  moreover have "rows_with_id 1 (table two_rows) = [row1]"
    by (simp add: rows_with_id_def two_rows_def row1_def row2_def)
  ultimately have f': "rows_with_id 1 (table (snd ?run)) = [row1]" using f by simp
  from body e' p' t' f' show ?thesis by blast
qed

section \<open>Answers without a truthy success\<close>

text \<open>
  C10 on the two-row backlog, when the service answers the create call with status 200 and the
  JSON list \<^verbatim>\<open>[1]\<close>, a body with no \<^verbatim>\<open>success\<close> field. The body is truthy, so line
  299 goes on to \<^verbatim>\<open>kb_entry_data.get\<close>, which a list does not have: the exception
  leaves the loop at the first row. Nothing is logged or counted, the second row is never
  sent, and the store is as it was.
\<close>

theorem non_dict_body_raises:
  "status_code list_body_response = 200
   \<and> json_body list_body_response = Inr (JArr [JNum 1])
   \<and> fst (train_loop (always (Inr list_body_response)) demo_cfg demo_replica 2 0
            [project row1, project row2] initial_run two_rows)
     = Inl (AttributeError (single_quoted ''list'' @ '' object has no attribute ''
                              @ single_quoted ''get''))
   \<and> filter call_or_delay
         (trace (snd (train_loop (always (Inr list_body_response)) demo_cfg demo_replica 2 0
                        [project row1, project row2] initial_run two_rows)))
     = [Net (create_request demo_cfg demo_replica)]
   \<and> table (snd (train_loop (always (Inr list_body_response)) demo_cfg demo_replica 2 0
                    [project row1, project row2] initial_run two_rows))
     = [row1, row2]"
  by code_simp

section \<open>The delay between rows\<close>

text \<open>
  C3. On the two-row backlog, when the service answers every call with status 500, each create
  call fails, the \<^verbatim>\<open>continue\<close> of line 303 leaves the iteration before line 338, and the
  two create calls follow each other with no delay between them and none after. On a one-row
  backlog whose fill call fails, the iteration runs to its last line and the delay follows
  the row.
\<close>

theorem no_delay_after_failed_create:
  "filter call_or_delay
     (trace (snd (train_loop (always (Inr server_error_response)) demo_cfg demo_replica 2 0
                    [project row1, project row2] initial_run two_rows)))
   = [Net (create_request demo_cfg demo_replica), Net (create_request demo_cfg demo_replica)]
   \<and> filter call_or_delay
     (trace (snd (train_loop fill_unflagged demo_cfg demo_replica 1 0
                    [project row1] initial_run two_rows)))
   = [Net (create_request demo_cfg demo_replica),
      Net (fill_request fill_unflagged demo_cfg demo_replica (JNum 7) ''hi''),
      Sleep_ms 200]"
  by code_simp

section \<open>The final report\<close>




lemma table_report: "report rep s w = (r, w') \<Longrightarrow> table w' = table w"
  by (auto simp add: report_def text_area_def Let_def table_emit widget_keys_emit
      split: if_splits)





section \<open>Runs that stop before the loop\<close>





section \<open>What stops a run and what does not\<close>










section \<open>The processed flag\<close>

lemma set_processed_idem: "set_processed i (set_processed i t) = set_processed i t"
proof (induction t)
  case Nil
  show ?case by (simp add: set_processed_def)
next
  case (Cons a t)
  have cons: "\<And>x xs. set_processed i (x # xs)
      = (if row_id x = i then x\<lparr>processed_for_sensay := True\<rparr> else x) # set_processed i xs"
    by (simp add: set_processed_def)
  show ?case unfolding cons using Cons.IH by (cases "row_id a = i") simp_all
qed

lemma request_table:
  "make_sensay_request sv m ep se v jd p u w = (res, w') \<Longrightarrow> table w' = table w"
proof (cases "supported m")
  case True
  assume "make_sensay_request sv m ep se v jd p u w = (res, w')"
  with request_supported [OF True, of sv ep se v jd p u w] show ?thesis
    by (auto simp add: table_emit)
next
  case False
  assume "make_sensay_request sv m ep se v jd p u w = (res, w')"
  with request_unsupported [OF False, of sv ep se v jd p u w] show ?thesis by simp
qed

lemma fetch_table:
  "fetch_unprocessed sv table_name owner w = (r, w') \<Longrightarrow> table w' = table w"
  by (auto simp add: fetch_unprocessed_def table_emit split: option.splits)

lemma start_training_marks_only:
  assumes "start_training sv c rep w = (out, w')"
  shows "marks_only (table w) (table w')"
proof (cases "truthy_str (replica_owner rep)")
  case False
  with assms have "w' = emit (St_error
      ''Cannot determine Slack User ID (ownerID) for this replica. Training aborted.'') w"
    by (simp add: start_training_def)
  then show ?thesis by (simp add: table_emit marks_only_refl)
next
  case True
  obtain r w0 where f: "fetch_unprocessed sv (supabase_table_name c) (fmt_opt (replica_owner rep))
                (emit (Progress_bar 0 1 ''Initializing training...'') w) = (r, w0)"
    by (cases "fetch_unprocessed sv (supabase_table_name c) (fmt_opt (replica_owner rep))
                (emit (Progress_bar 0 1 ''Initializing training...'') w)")
  have t0: "table w0 = table w" using fetch_table [OF f] by (simp add: table_emit)
  show ?thesis
  proof (cases r)
    case (Inl e)
    with assms True f have "table w' = table w0"
      by (auto simp add: start_training_def table_emit)
    with t0 show ?thesis by (simp add: marks_only_refl)
  next
    case (Inr msgs)
    show ?thesis
    proof (cases "msgs = []")
      case True
      with assms \<open>truthy_str (replica_owner rep)\<close> f Inr have "table w' = table w0"
        by (auto simp add: start_training_def table_emit)
      with t0 show ?thesis by (simp add: marks_only_refl)
    next
      case False
      let ?w1 = "emit (St_success (''Found '' @ str_nat (length msgs)
                                     @ '' new Slack messages to train with.'')) w0"
      obtain r2 w2 where l: "train_loop sv c rep (length msgs) 0 msgs initial_run ?w1 = (r2, w2)"
        by (cases "train_loop sv c rep (length msgs) 0 msgs initial_run ?w1")
      have m: "marks_only (table w) (table w2)"
        using loop_marks_only [OF l] t0 by (simp add: table_emit)
      have "table w' = table w2"
        using assms \<open>truthy_str (replica_owner rep)\<close> f Inr False l
        by (cases r2)
          (auto simp add: start_training_def split: prod.splits option.splits dest: table_report)
      with m show ?thesis by simp
    qed
  qed
qed

text \<open>
  C8. Marking is idempotent: marking the rows with id \<open>i\<close> twice gives the table that marking
  them once gives, where every row with that id is processed; and when the store does not
  raise, the second update of the same row returns no error and leaves the table as the first
  one left it. The flag is monotone: the update is the only write to the store in the program,
  and a press of the training button, however it ends, only sets processed flags to true, so
  the table keeps its rows and a row that was processed is still processed; a call of
  \<open>make_sensay_request\<close>, which the other tabs are made of, does not touch the store.
\<close>

theorem processed_flag_monotone:
  "set_processed i (set_processed i t) = set_processed i t
   \<and> (\<forall>r\<in>set (set_processed i t). row_id r = i \<longrightarrow> processed_for_sensay r)
   \<and> (update_raises sv (update_count w) i = None
        \<and> update_raises sv (Suc (update_count w)) i = None \<longrightarrow>
        (\<exists>w1 w2. mark_processed sv table_name i w = (None, w1)
           \<and> mark_processed sv table_name i w1 = (None, w2)
           \<and> table w2 = table w1
           \<and> (\<forall>r\<in>set (table w2). row_id r = i \<longrightarrow> processed_for_sensay r)))
   \<and> (\<forall>out w'. start_training sv c rep w = (out, w') \<longrightarrow>
        marks_only (table w) (table w')
        \<and> length (table w') = length (table w)
        \<and> (\<forall>n<length (table w). processed_for_sensay (table w ! n)
              \<longrightarrow> processed_for_sensay (table w' ! n)))
   \<and> (\<forall>res w'. make_sensay_request sv m ep se v jd p u w = (res, w') \<longrightarrow> table w' = table w)"
proof -
  have 1: "set_processed i (set_processed i t) = set_processed i t"
    by (rule set_processed_idem)
  have 2: "\<And>t. \<forall>r\<in>set (set_processed i t). row_id r = i \<longrightarrow> processed_for_sensay r"
    using set_processed_marked by blast
  have 3: "update_raises sv (update_count w) i = None
        \<and> update_raises sv (Suc (update_count w)) i = None \<longrightarrow>
        (\<exists>w1 w2. mark_processed sv table_name i w = (None, w1)
           \<and> mark_processed sv table_name i w1 = (None, w2)
           \<and> table w2 = table w1
           \<and> (\<forall>r\<in>set (table w2). row_id r = i \<longrightarrow> processed_for_sensay r))"
  proof
    assume h: "update_raises sv (update_count w) i = None
        \<and> update_raises sv (Suc (update_count w)) i = None"
    let ?w1 = "emit (Store_update table_name i) (w\<lparr>table := set_processed i (table w)\<rparr>)"
    let ?w2 = "emit (Store_update table_name i) (?w1\<lparr>table := set_processed i (table ?w1)\<rparr>)"
    have a: "mark_processed sv table_name i w = (None, ?w1)"
      using h by (simp add: mark_processed_def)
    have c1: "update_count ?w1 = Suc (update_count w)"
      by (simp add: update_count_def emit_def)
    have b: "mark_processed sv table_name i ?w1 = (None, ?w2)"
      using h unfolding mark_processed_def c1 by simp
    have t1: "table ?w1 = set_processed i (table w)" by (simp add: table_emit)
    have t2: "table ?w2 = set_processed i (set_processed i (table w))"
      by (simp add: table_emit)
    have c: "table ?w2 = table ?w1" by (simp add: table_emit set_processed_idem)
    have d: "\<forall>r\<in>set (table ?w2). row_id r = i \<longrightarrow> processed_for_sensay r"
      unfolding t2 by (rule 2)
    from a b c d show "\<exists>w1 w2. mark_processed sv table_name i w = (None, w1)
           \<and> mark_processed sv table_name i w1 = (None, w2)
           \<and> table w2 = table w1
           \<and> (\<forall>r\<in>set (table w2). row_id r = i \<longrightarrow> processed_for_sensay r)"
      by blast
  qed
  have 4: "\<forall>out w'. start_training sv c rep w = (out, w') \<longrightarrow>
        marks_only (table w) (table w')
        \<and> length (table w') = length (table w)
        \<and> (\<forall>n<length (table w). processed_for_sensay (table w ! n)
              \<longrightarrow> processed_for_sensay (table w' ! n))"
  proof (intro allI impI)
    fix out w' assume "start_training sv c rep w = (out, w')"
    then have m: "marks_only (table w) (table w')" by (rule start_training_marks_only)
    then have "length (table w') = length (table w)"
      by (simp add: marks_only_def list_all2_lengthD)
    with m marks_only_monotone [OF m]
    show "marks_only (table w) (table w')
        \<and> length (table w') = length (table w)
        \<and> (\<forall>n<length (table w). processed_for_sensay (table w ! n)
              \<longrightarrow> processed_for_sensay (table w' ! n))"
      by blast
  qed
  have 5: "\<forall>res w'. make_sensay_request sv m ep se v jd p u w = (res, w') \<longrightarrow> table w' = table w"
    using request_table by blast
  from 1 2 [of t] 3 4 5 show ?thesis by blast
qed

text \<open>
  The theorem of C8 on the two-row store: row 1 is marked twice without error and the second
  update changes nothing; and after a run in which the second create call fails, the store
  holds the same two rows with flags set only.
\<close>

theorem processed_flag_monotone_witness:
  "set_processed 1 (set_processed 1 [row1, row2]) = set_processed 1 [row1, row2]
   \<and> (\<exists>w1 w2. mark_processed healthy ''slack_messages_for_sensay'' 1 two_rows = (None, w1)
         \<and> mark_processed healthy ''slack_messages_for_sensay'' 1 w1 = (None, w2)
         \<and> table w2 = table w1)
   \<and> marks_only [row1, row2]
        (table (snd (start_training (healthy_until 2) demo_cfg demo_replica two_rows)))"
proof -
  let ?run = "start_training (healthy_until 2) demo_cfg demo_replica two_rows"
  note inst = processed_flag_monotone [of 1 "[row1, row2]" healthy two_rows
      "''slack_messages_for_sensay''" demo_cfg demo_replica]
  have h: "update_raises healthy (update_count two_rows) 1 = None
        \<and> update_raises healthy (Suc (update_count two_rows)) 1 = None"
    by (simp add: healthy_def)
  have 1: "set_processed 1 (set_processed 1 [row1, row2]) = set_processed 1 [row1, row2]"
    using inst by blast
  have 2: "\<exists>w1 w2. mark_processed healthy ''slack_messages_for_sensay'' 1 two_rows = (None, w1)
         \<and> mark_processed healthy ''slack_messages_for_sensay'' 1 w1 = (None, w2)
         \<and> table w2 = table w1"
    using inst h by blast
  have r: "?run = (fst ?run, snd ?run)" by simp
  have "marks_only (table two_rows) (table (snd ?run))"
    using processed_flag_monotone [of 1 "[row1, row2]" "healthy_until 2" two_rows
      "''slack_messages_for_sensay''" demo_cfg demo_replica] r by blast
  then have 3: "marks_only [row1, row2] (table (snd ?run))" by (simp add: two_rows_def)
  from 1 2 3 show ?thesis by blast
qed

end
